theory Spec2Isabelle
  imports Complex_Main
begin

section \<open>Numbers, points and affine matrices\<close>

text \<open>
  Coordinates are real numbers: the finite values of the source's doubles, with rounding
  left out. Two places need more. The source tests a number for being \<open>NaN\<close> in the render
  guard of \<open>commonRender\<close>; that function is therefore modelled over \<open>jsnum\<close>, the reals
  extended by the three special values of a JavaScript number. And the round trip of the
  two shear functions is exact in the reals but not in doubles; for it the two functions
  are modelled a second time, with every operation rounded as a double operation is.
\<close>

datatype jsnum = Num real | PosInf | NegInf | NaN

text \<open>The global \<open>isNaN\<close> applied to a number: true for \<open>NaN\<close> only.\<close>

fun isNaN :: "jsnum \<Rightarrow> bool" where
  "isNaN NaN = True"
| "isNaN _ = False"

text \<open>The operator \<open>-\<close> on JavaScript numbers (IEEE rules for the special values).\<close>

fun js_sub :: "jsnum \<Rightarrow> jsnum \<Rightarrow> jsnum" where
  "js_sub NaN _ = NaN"
| "js_sub _ NaN = NaN"
| "js_sub (Num a) (Num b) = Num (a - b)"
| "js_sub PosInf PosInf = NaN"
| "js_sub NegInf NegInf = NaN"
| "js_sub PosInf _ = PosInf"
| "js_sub NegInf _ = NegInf"
| "js_sub (Num a) PosInf = NegInf"
| "js_sub (Num a) NegInf = PosInf"

datatype 'n Point = Point (X: 'n) (Y: 'n)

text \<open>
  Modelled from the spec: the class \<open>Point\<close> (\<open>point.class\<close>) is not among the sources.
  The spec gives it componentwise add, subtract, multiply and divide, a scalar add, and the
  transformation by a 2x3 affine matrix; the operations that the modelled functions call
  follow.
\<close>

definition point_subtract :: "real Point \<Rightarrow> real Point \<Rightarrow> real Point" where
  "point_subtract p q = Point (X p - X q) (Y p - Y q)"

definition point_multiply :: "real Point \<Rightarrow> real Point \<Rightarrow> real Point" where
  "point_multiply p q = Point (X p * X q) (Y p * Y q)"

definition point_divide :: "real Point \<Rightarrow> real Point \<Rightarrow> real Point" where
  "point_divide p q = Point (X p / X q) (Y p / Y q)"

definition point_scalarAdd :: "real Point \<Rightarrow> real \<Rightarrow> real Point" where
  "point_scalarAdd p s = Point (X p + s) (Y p + s)"

type_synonym TMat2D = "real \<times> real \<times> real \<times> real \<times> real \<times> real"

text \<open>
  Modelled from the spec: \<open>iMatrix\<close> (\<open>constants\<close>), \<open>multiplyTransformMatrices\<close>
  (\<open>util/misc/matrix\<close>) and \<open>Point.transform\<close> are not among the sources. The spec has a
  2x3 affine matrix, composed by multiplication so that the right matrix is applied first;
  the identity matrix is the default viewport.
\<close>

definition iMatrix :: TMat2D where
  "iMatrix = (1, 0, 0, 1, 0, 0)"

fun multiplyTransformMatrices :: "TMat2D \<Rightarrow> TMat2D \<Rightarrow> TMat2D" where
  "multiplyTransformMatrices (a0, a1, a2, a3, a4, a5) (b0, b1, b2, b3, b4, b5) =
     (a0 * b0 + a2 * b1, a1 * b0 + a3 * b1,
      a0 * b2 + a2 * b3, a1 * b2 + a3 * b3,
      a0 * b4 + a2 * b5 + a4, a1 * b4 + a3 * b5 + a5)"

fun point_transform :: "real Point \<Rightarrow> TMat2D \<Rightarrow> real Point" where
  "point_transform p (t0, t1, t2, t3, t4, t5) =
     Point (t0 * X p + t2 * Y p + t4) (t1 * X p + t3 * Y p + t5)"

text \<open>
  Modelled from the spec: \<open>degreesToRadians\<close> (\<open>util/misc/radiansDegreesConversion\<close>) is
  not among the sources; the spec writes \<open>tan(skewX\<degree>)\<close>, the tangent of an angle given
  in degrees. \<open>Math.tan\<close> is the real tangent.
\<close>

definition degreesToRadians :: "real \<Rightarrow> real" where
  "degreesToRadians d = d * (pi / 180)"

text \<open>\<open>points[i]\<close> of JavaScript: \<open>undefined\<close> (here \<open>None\<close>) outside the array.\<close>

definition js_nth :: "'a list \<Rightarrow> int \<Rightarrow> 'a option" where
  "js_nth xs i = (if 0 \<le> i \<and> i < int (length xs) then Some (xs ! nat i) else None)"

text \<open>Reading a property of \<open>undefined\<close> throws a \<open>TypeError\<close>.\<close>

datatype js_error = TypeError

section \<open>The shape\<close>

record PolyControl =
  pointIndex :: int

record Canvas =
  viewportTransform :: "TMat2D option"

text \<open>
  The fields of a polyline that the two source files read or write; \<open>top'\<close> is the
  source's \<open>top\<close> and \<open>corner\<close> its \<open>__corner\<close>.
\<close>

record 'n Polyline =
  points :: "'n Point list"
  strokeWidth :: 'n
  strokeUniform :: bool
  strokeLineJoin :: string
  scaleX :: 'n
  scaleY :: 'n
  skewX :: 'n
  skewY :: 'n
  flipX :: bool
  flipY :: bool
  originX :: string
  originY :: string
  left :: 'n
  top' :: 'n
  width :: 'n
  height :: 'n
  pathOffset :: "'n Point"
  canvas :: "Canvas option"
  controls :: "string \<rightharpoonup> PolyControl"
  corner :: string

record Projection =
  projectedPoint :: "real Point"

datatype TBBox = TBBox (bbox_left: real) (bbox_top: real) (bbox_width: real) (bbox_height: real)

text \<open>
  The functions of the repository that the two source files call and that are not among
  the sources. They are parameters of the model: each function below that calls one of
  them takes this record as its first argument.
\<close>

record Env =
  projectStrokeOnPoints :: "real Point list \<Rightarrow> real Polyline \<Rightarrow> bool \<Rightarrow> Projection list"
  translateToGivenOrigin ::
    "real Polyline \<Rightarrow> real Point \<Rightarrow> string \<Rightarrow> string \<Rightarrow> string \<Rightarrow> string \<Rightarrow> real Point"
  calcTransformMatrix :: "real Polyline \<Rightarrow> TMat2D"
  setPositionByOrigin :: "real Point \<Rightarrow> real \<Rightarrow> real \<Rightarrow> real Polyline \<Rightarrow> real Polyline"

section \<open>Shear: \<open>PolyControl.applySkew\<close> and \<open>PolyControl.removeSkew\<close>\<close>

definition applySkew :: "real Point \<Rightarrow> real Point \<Rightarrow> real Point" where
  "applySkew point shear =
     (let skewedPoint_y = Y point + X point * Y shear;
          skewedPoint_x = X point + skewedPoint_y * X shear
      in Point skewedPoint_x skewedPoint_y)"

definition removeSkew :: "real Point \<Rightarrow> real Point \<Rightarrow> real Point" where
  "removeSkew point shear =
     (let unskewedPoint_x = X point - Y point * X shear;
          unskewedPoint_y = Y point - unskewedPoint_x * Y shear
      in Point unskewedPoint_x unskewedPoint_y)"

definition getSize :: "real Polyline \<Rightarrow> real Point" where
  "getSize poly = Point (width poly) (height poly)"

subsection \<open>The shear in double precision\<close>






section \<open>The polyline: \<open>polyline.class\<close>\<close>

text \<open>
  Modelled from the spec: \<open>makeBoundingBoxFromPoints\<close> (\<open>util/misc/boundingBoxFromPoints\<close>)
  is not among the sources. For a sequence that is not empty the spec gives
  \<open>left = min(x)\<close>, \<open>top = min(y)\<close>, \<open>width = max(x) - min(x)\<close> and
  \<open>height = max(y) - min(y)\<close>. It gives no result for the helper on an empty sequence
  (the caller replaces that by the origin "rather than failing"), so the helper has none
  here: \<open>None\<close>.
\<close>

fun makeBoundingBoxFromPoints :: "real Point list \<Rightarrow> TBBox option" where
  "makeBoundingBoxFromPoints [] = None"
| "makeBoundingBoxFromPoints (p # ps) =
     (let min_x = fold (\<lambda>q m. min (X q) m) ps (X p);
          min_y = fold (\<lambda>q m. min (Y q) m) ps (Y p);
          max_x = fold (\<lambda>q m. max (X q) m) ps (X p);
          max_y = fold (\<lambda>q m. max (Y q) m) ps (Y p)
      in Some (TBBox min_x min_y (max_x - min_x) (max_y - min_y)))"

text \<open>\<open>_calcDimensions\<close> (an Isabelle name cannot start with an underscore).\<close>

definition calcDimensions :: "Env \<Rightarrow> real Polyline \<Rightarrow> TBBox option" where
  "calcDimensions E this =
     (let points' = map projectedPoint (projectStrokeOnPoints E (points this) this True)
      in if length points' = 0 then makeBoundingBoxFromPoints [Point 0 0]
         else makeBoundingBoxFromPoints points')"

text \<open>
  The argument \<open>{ left, top, fromSVG }\<close> of \<open>_setPositionDimensions\<close>; \<open>None\<close> is
  \<open>undefined\<close>, and a call with no argument passes \<open>noOptions\<close>.
\<close>

record Options =
  opt_left :: "real option"
  opt_top :: "real option"
  fromSVG :: bool

definition noOptions :: Options where
  "noOptions = \<lparr>opt_left = None, opt_top = None, fromSVG = False\<rparr>"

text \<open>
  \<open>_setPositionDimensions\<close>, the recomputation of the derived geometry. The result is
  \<open>None\<close> only if the bounding box has no value.
\<close>

definition setPositionDimensions :: "Env \<Rightarrow> Options \<Rightarrow> real Polyline \<Rightarrow> real Polyline option" where
  "setPositionDimensions E opts this =
     (case calcDimensions E this of
        None \<Rightarrow> None
      | Some bbox \<Rightarrow>
          let strokeCorrection =
                point_divide (point_scalarAdd (Point 0 0) (strokeWidth this))
                  (if strokeUniform this then Point (scaleX this) (scaleY this)
                   else point_scalarAdd (Point 0 0) 1);
              this = this\<lparr>width := bbox_width bbox - X strokeCorrection\<rparr>;
              this = this\<lparr>height := bbox_height bbox - Y strokeCorrection\<rparr>;
              this =
                (if opt_left opts = None \<or> opt_top opts = None then
                   let origin =
                         translateToGivenOrigin E this
                           (if fromSVG opts then Point (bbox_left bbox) (bbox_top bbox)
                            else Point (left this) (top' this))
                           ''left'' ''top'' (originX this) (originY this);
                       this = (if opt_left opts = None then this\<lparr>left := X origin\<rparr> else this);
                       this = (if opt_top opts = None then this\<lparr>top' := Y origin\<rparr> else this)
                   in this
                 else this);
              offsetX = bbox_left bbox + bbox_width bbox / 2;
              offsetY = bbox_top bbox + bbox_height bbox / 2;
              pathOffsetX = offsetX - offsetY * tan (degreesToRadians (skewX this));
              pathOffsetY = offsetY - pathOffsetX * tan (degreesToRadians (skewY this))
          in Some (this\<lparr>pathOffset := Point pathOffsetX pathOffsetY\<rparr>))"

text \<open>
  \<open>_set\<close>. The setter of the base class, \<open>callSuper\<close>, is not among the sources and is a
  parameter: it returns the object it has changed and its own result, which \<open>_set\<close>
  returns in turn.
\<close>

definition polyline_set ::
  "Env \<Rightarrow> (string \<Rightarrow> 'v \<Rightarrow> real Polyline \<Rightarrow> real Polyline \<times> 'o) \<Rightarrow> string \<Rightarrow> 'v \<Rightarrow>
   real Polyline \<Rightarrow> (real Polyline \<times> 'o) option" where
  "polyline_set E callSuper key val this =
     (let (this, output) = callSuper key val this
      in if (key = ''scaleX'' \<or> key = ''scaleY'') \<and> strokeUniform this
            \<and> strokeLineJoin this \<noteq> ''round''
         then map_option (\<lambda>this. (this, output)) (setPositionDimensions E noOptions this)
         else if key = ''skewX'' \<or> key = ''skewY''
         then map_option (\<lambda>this. (this, output)) (setPositionDimensions E noOptions this)
         else Some (this, output))"

text \<open>
  \<open>commonRender\<close>. The canvas context is the list of the path commands issued so far.
  The result is the returned value, the polyline and the context after the call.
\<close>

datatype PathCommand = BeginPath | MoveTo jsnum jsnum | LineTo jsnum jsnum

primrec lineTo_loop :: "jsnum Point list \<Rightarrow> jsnum \<Rightarrow> jsnum \<Rightarrow> PathCommand list \<Rightarrow> PathCommand list" where
  "lineTo_loop [] x y ctx = ctx"
| "lineTo_loop (point # rest) x y ctx =
     lineTo_loop rest x y (ctx @ [LineTo (js_sub (X point) x) (js_sub (Y point) y)])"

definition commonRender ::
  "jsnum Polyline \<Rightarrow> PathCommand list \<Rightarrow> bool \<times> jsnum Polyline \<times> PathCommand list" where
  "commonRender this ctx =
     (let len = length (points this);
          x = X (pathOffset this);
          y = Y (pathOffset this)
      in if len = 0 then (False, this, ctx)
         else if isNaN (Y (points this ! (len - 1))) then (False, this, ctx)
         else
           let ctx = ctx @ [BeginPath];
               ctx = ctx @ [MoveTo (js_sub (X (points this ! 0)) x) (js_sub (Y (points this ! 0)) y)];
               ctx = lineTo_loop (points this) x y ctx
           in (True, this, ctx))"

section \<open>The control of one vertex: \<open>PolyControl\<close>\<close>

text \<open>
  \<open>positionHandler\<close>. \<open>polyObject.canvas?.viewportTransform ?? iMatrix\<close> is the
  identity when the canvas or its viewport transform is undefined.
\<close>

definition positionHandler ::
  "Env \<Rightarrow> PolyControl \<Rightarrow> real Point \<Rightarrow> TMat2D \<Rightarrow> real Polyline \<Rightarrow> js_error + real Point" where
  "positionHandler E this dim' finalMatrix polyObject =
     (case js_nth (points polyObject) (pointIndex this) of
        None \<Rightarrow> Inl TypeError
      | Some p \<Rightarrow>
          let x = X p - X (pathOffset polyObject);
              y = Y p - Y (pathOffset polyObject)
          in Inr (point_transform (Point x y)
                   (multiplyTransformMatrices
                      (case canvas polyObject of
                         None \<Rightarrow> iMatrix
                       | Some c \<Rightarrow> (case viewportTransform c of None \<Rightarrow> iMatrix | Some v \<Rightarrow> v))
                      (calcTransformMatrix E polyObject))))"

text \<open>
  \<open>anchorWrapper fn\<close>. The polyline is \<open>transform.target\<close>, which the wrapped handler
  \<open>fn\<close> and \<open>setPositionByOrigin\<close> change; the event and the rest of the transform are
  passed on to \<open>fn\<close> as they are. Reading \<open>pointIndex\<close> of a missing control, or a
  coordinate of a missing anchor vertex, throws.
\<close>

definition anchorWrapper ::
  "Env \<Rightarrow> ('e \<Rightarrow> 't \<Rightarrow> real \<Rightarrow> real \<Rightarrow> real Polyline \<Rightarrow> js_error + bool \<times> real Polyline) \<Rightarrow>
   'e \<Rightarrow> 't \<Rightarrow> real \<Rightarrow> real \<Rightarrow> real Polyline \<Rightarrow> js_error + bool \<times> real Polyline" where
  "anchorWrapper E fn eventData transform x y poly =
     (case controls poly (corner poly) of
        None \<Rightarrow> Inl TypeError
      | Some currentControl \<Rightarrow>
          (let anchorIndex =
                 (if pointIndex currentControl > 0 then pointIndex currentControl
                  else int (length (points poly))) - 1
           in (case js_nth (points poly) anchorIndex of
                 None \<Rightarrow> Inl TypeError
               | Some a \<Rightarrow>
                   (let absolutePoint =
                          point_transform
                            (Point (X a - X (pathOffset poly)) (Y a - Y (pathOffset poly)))
                            (calcTransformMatrix E poly)
                    in (case fn eventData transform x y poly of
                          Inl e \<Rightarrow> Inl e
                        | Inr (actionPerformed, poly) \<Rightarrow>
                            (let polygonBaseSize = getSize poly;
                                 shear = Point (tan (degreesToRadians (skewX poly)))
                                               (tan (degreesToRadians (skewY poly)));
                                 adjustFlip = Point (if flipX poly then - 1 else 1)
                                                    (if flipY poly then - 1 else 1)
                             in (case js_nth (points poly) anchorIndex of
                                   None \<Rightarrow> Inl TypeError
                                 | Some a' \<Rightarrow>
                                     (let newPosition =
                                            point_multiply
                                              (point_divide
                                                 (applySkew
                                                    (point_subtract (Point (X a') (Y a'))
                                                       (pathOffset poly))
                                                    shear)
                                                 polygonBaseSize)
                                              adjustFlip
                                      in Inr (actionPerformed,
                                              setPositionByOrigin E absolutePoint
                                                (X newPosition + 0.5) (Y newPosition + 0.5)
                                                poly)))))))))"

section \<open>Example inputs\<close>

text \<open>
  The square of the spec's scenarios, with a stroke of width 0, no scale, skew or flip, its
  derived geometry as recomputed (\<open>width = 10\<close>, \<open>height = 10\<close>, \<open>pathOffset = (5, 5)\<close>),
  one control per vertex (\<open>createPolyControls\<close> names them \<open>p0\<close>, \<open>p1\<close>, ...) and the
  control of vertex 2 being dragged.
\<close>

definition square :: "real Polyline" where
  "square =
     \<lparr>points = [Point 0 0, Point 10 0, Point 10 10, Point 0 10],
      strokeWidth = 0, strokeUniform = False, strokeLineJoin = ''miter'',
      scaleX = 1, scaleY = 1, skewX = 0, skewY = 0, flipX = False, flipY = False,
      originX = ''left'', originY = ''top'', left = 0, top' = 0,
      width = 10, height = 10, pathOffset = Point 5 5, canvas = None,
      controls = [''p0'' \<mapsto> \<lparr>pointIndex = 0\<rparr>, ''p1'' \<mapsto> \<lparr>pointIndex = 1\<rparr>,
                  ''p2'' \<mapsto> \<lparr>pointIndex = 2\<rparr>, ''p3'' \<mapsto> \<lparr>pointIndex = 3\<rparr>],
      corner = ''p2''\<rparr>"

text \<open>
  An environment for the examples. Its stroke projection is that of a stroke of width 0:
  the vertices themselves, skewed by the polyline's shear. Its origin translation leaves
  the point where it is, its transform matrix is that shear followed by the translation by
  \<open>(left, top)\<close>, and its \<open>setPositionByOrigin\<close> stores the origin fraction it is
  given in \<open>left\<close> and \<open>top\<close>, so that the arguments of the call can be read off the
  result.
\<close>

definition exampleEnv :: Env where
  "exampleEnv =
     \<lparr>projectStrokeOnPoints =
        (\<lambda>pts this openPath.
           map (\<lambda>p. \<lparr>projectedPoint =
                        applySkew p (Point (tan (degreesToRadians (skewX this)))
                                           (tan (degreesToRadians (skewY this))))\<rparr>) pts),
      translateToGivenOrigin = (\<lambda>this p fromX fromY toX toY. p),
      calcTransformMatrix =
        (\<lambda>this. (1 + tan (degreesToRadians (skewX this)) * tan (degreesToRadians (skewY this)),
                 tan (degreesToRadians (skewY this)), tan (degreesToRadians (skewX this)), 1,
                 left this, top' this)),
      setPositionByOrigin = (\<lambda>pos ox oy this. this\<lparr>left := ox, top' := oy\<rparr>)\<rparr>"

text \<open>An example of the base class's setter: it assigns the numeric field named by the key.\<close>

definition exampleSuper :: "string \<Rightarrow> real \<Rightarrow> real Polyline \<Rightarrow> real Polyline \<times> unit" where
  "exampleSuper key val this =
     (if key = ''scaleX'' then (this\<lparr>scaleX := val\<rparr>, ())
      else if key = ''scaleY'' then (this\<lparr>scaleY := val\<rparr>, ())
      else if key = ''skewX'' then (this\<lparr>skewX := val\<rparr>, ())
      else if key = ''skewY'' then (this\<lparr>skewY := val\<rparr>, ())
      else if key = ''strokeWidth'' then (this\<lparr>strokeWidth := val\<rparr>, ())
      else (this, ()))"

text \<open>
  An example of a drag handler: it puts the dragged vertex at \<open>(x, y)\<close> and recomputes
  the geometry.
\<close>

definition exampleDrag ::
  "Env \<Rightarrow> unit \<Rightarrow> unit \<Rightarrow> real \<Rightarrow> real \<Rightarrow> real Polyline \<Rightarrow> js_error + bool \<times> real Polyline" where
  "exampleDrag E eventData transform x y poly =
     (case controls poly (corner poly) of
        None \<Rightarrow> Inl TypeError
      | Some currentControl \<Rightarrow>
          (case setPositionDimensions E noOptions
                  (poly\<lparr>points := (points poly)[nat (pointIndex currentControl) := Point x y]\<rparr>) of
             None \<Rightarrow> Inl TypeError
           | Some poly \<Rightarrow> Inr (True, poly)))"

text \<open>A polyline whose only point has an infinite y-coordinate.\<close>

definition infinitePolyline :: "jsnum Polyline" where
  "infinitePolyline =
     \<lparr>points = [Point (Num 0) PosInf],
      strokeWidth = Num 1, strokeUniform = False, strokeLineJoin = ''miter'',
      scaleX = Num 1, scaleY = Num 1, skewX = Num 0, skewY = Num 0,
      flipX = False, flipY = False, originX = ''left'', originY = ''top'',
      left = Num 0, top' = Num 0, width = Num 0, height = Num 0,
      pathOffset = Point (Num 0) (Num 0), canvas = None, controls = Map.empty,
      corner = ''p0''\<rparr>"

text \<open>
  The square skewed by 45 degrees along x, with the geometry the example environment
  recomputes for it, and the same polyline after vertex 2 has been dragged to \<open>(15, 10)\<close>.
\<close>

definition skewedSquare :: "real Polyline" where
  "skewedSquare = square\<lparr>skewX := 45, width := 20\<rparr>"

definition draggedSquare :: "real Polyline" where
  "draggedSquare =
     skewedSquare\<lparr>points := [Point 0 0, Point 10 0, Point 15 10, Point 0 10],
                   width := 25, pathOffset := Point (15 / 2) 5\<rparr>"

text \<open>
  The square with a uniform stroke of width 2 and round joins, and the geometry the example
  environment recomputes for it.
\<close>

definition roundSquare :: "real Polyline" where
  "roundSquare =
     square\<lparr>strokeWidth := 2, strokeUniform := True, strokeLineJoin := ''round'',
            width := 8, height := 8\<rparr>"

text \<open>
  The origin fraction of the anchor vertex \<open>a\<close> as the spec words it:
  \<open>removeSkew(points[anchorIndex] - pathOffset, shear) / baseSizeNew * flipAdjust + 0.5\<close>.
  It is compared with the fraction that \<open>anchorWrapper\<close> computes.
\<close>

definition spec_originFraction :: "real Polyline \<Rightarrow> real Point \<Rightarrow> real Point" where
  "spec_originFraction poly a =
     point_scalarAdd
       (point_multiply
          (point_divide
             (removeSkew (point_subtract a (pathOffset poly))
                (Point (tan (degreesToRadians (skewX poly))) (tan (degreesToRadians (skewY poly)))))
             (Point (width poly) (height poly)))
          (Point (if flipX poly then - 1 else 1) (if flipY poly then - 1 else 1)))
       0.5"

section \<open>Theorems\<close>

subsection \<open>Auxiliary facts\<close>

lemma tan_deg_0: "tan (degreesToRadians 0) = 0"
  by (simp add: degreesToRadians_def)

lemma tan_deg_45: "tan (degreesToRadians 45) = 1"
  by (simp add: degreesToRadians_def tan_45)

lemma cos_deg_0: "cos (degreesToRadians 0) \<noteq> 0"
  by (simp add: degreesToRadians_def)

lemma cos_deg_45: "cos (degreesToRadians 45) \<noteq> 0"
  by (simp add: degreesToRadians_def cos_45)

lemma multiply_iMatrix: "multiplyTransformMatrices iMatrix m = m"
  by (cases m) (simp add: iMatrix_def)

lemma calcDimensions_Some: "\<exists>b. calcDimensions E this = Some b"
  by (cases "map projectedPoint (projectStrokeOnPoints E (points this) this True)")
     (simp_all add: calcDimensions_def Let_def)

lemma strokeCorrection_eq:
  "point_divide (point_scalarAdd (Point 0 0) sw)
     (if u then Point sx sy else point_scalarAdd (Point 0 0) 1) =
   Point (sw / (if u then sx else 1)) (sw / (if u then sy else 1))"
  by (simp add: point_divide_def point_scalarAdd_def)

lemma setPositionDimensions_result:
  assumes "calcDimensions E this = Some bbox"
  shows "\<exists>l t. setPositionDimensions E opts this =
           Some (this\<lparr>width := bbox_width bbox
                           - strokeWidth this / (if strokeUniform this then scaleX this else 1),
                      height := bbox_height bbox
                           - strokeWidth this / (if strokeUniform this then scaleY this else 1),
                      left := l, top' := t,
                      pathOffset :=
                        removeSkew
                          (Point (bbox_left bbox + bbox_width bbox / 2)
                                 (bbox_top bbox + bbox_height bbox / 2))
                          (Point (tan (degreesToRadians (skewX this)))
                                 (tan (degreesToRadians (skewY this))))\<rparr>)"
proof (cases "opt_left opts = None \<or> opt_top opts = None")
  case False
  have "setPositionDimensions E opts this =
           Some (this\<lparr>width := bbox_width bbox
                           - strokeWidth this / (if strokeUniform this then scaleX this else 1),
                      height := bbox_height bbox
                           - strokeWidth this / (if strokeUniform this then scaleY this else 1),
                      left := left this, top' := top' this,
                      pathOffset :=
                        removeSkew
                          (Point (bbox_left bbox + bbox_width bbox / 2)
                                 (bbox_top bbox + bbox_height bbox / 2))
                          (Point (tan (degreesToRadians (skewX this)))
                                 (tan (degreesToRadians (skewY this))))\<rparr>)"
    using assms False
    apply (simp only: setPositionDimensions_def strokeCorrection_eq option.case Let_def if_False)
    apply (simp add: removeSkew_def Let_def)
    done
  then show ?thesis by blast
next
  case True
  let ?w = "bbox_width bbox - strokeWidth this / (if strokeUniform this then scaleX this else 1)"
  let ?h = "bbox_height bbox - strokeWidth this / (if strokeUniform this then scaleY this else 1)"
  let ?o = "translateToGivenOrigin E (this\<lparr>width := ?w, height := ?h\<rparr>)
              (if fromSVG opts then Point (bbox_left bbox) (bbox_top bbox)
               else Point (left this) (top' this))
              ''left'' ''top'' (originX this) (originY this)"
  have "setPositionDimensions E opts this =
           Some (this\<lparr>width := ?w, height := ?h,
                      left := if opt_left opts = None then X ?o else left this,
                      top' := if opt_top opts = None then Y ?o else top' this,
                      pathOffset :=
                        removeSkew
                          (Point (bbox_left bbox + bbox_width bbox / 2)
                                 (bbox_top bbox + bbox_height bbox / 2))
                          (Point (tan (degreesToRadians (skewX this)))
                                 (tan (degreesToRadians (skewY this))))\<rparr>)"
    using assms True
    apply (simp only: setPositionDimensions_def strokeCorrection_eq option.case Let_def if_True)
    apply (simp add: removeSkew_def Let_def)
    done
  then show ?thesis by blast
qed

lemma calcDimensions_skewedSquare:
  "calcDimensions exampleEnv (square\<lparr>skewX := 45\<rparr>) = Some (TBBox 0 0 20 10)"
  by (simp add: calcDimensions_def exampleEnv_def square_def applySkew_def Let_def
        tan_deg_0 tan_deg_45)

lemma lineTo_loop_map:
  "lineTo_loop ps x y ctx = ctx @ map (\<lambda>p. LineTo (js_sub (X p) x) (js_sub (Y p) y)) ps"
  by (induction ps arbitrary: ctx) simp_all

lemma isNaN_iff: "isNaN v \<longleftrightarrow> v = NaN"
  by (cases v) simp_all

subsection \<open>The shear\<close>
















subsection \<open>The recomputation of the geometry\<close>

text \<open>
  C6. After \<open>_setPositionDimensions\<close>, \<open>width\<close> is the width of the bounding box of the
  stroke-projected points minus \<open>strokeWidth / (strokeUniform ? scaleX : 1)\<close>, and
  \<open>height\<close> is its height minus \<open>strokeWidth / (strokeUniform ? scaleY : 1)\<close>. Nothing
  is clamped: whenever the correction exceeds the extent of the box, the result is
  negative. The scale factors that divide are not zero (the spec's data model has them
  nonzero; a division by zero is not a real number).
\<close>

theorem setPositionDimensions_width_height:
  assumes "strokeUniform this \<longrightarrow> scaleX this \<noteq> 0 \<and> scaleY this \<noteq> 0"
  shows "\<exists>bbox this'.
           calcDimensions E this = Some bbox \<and>
           setPositionDimensions E opts this = Some this' \<and>
           width this' =
             bbox_width bbox - strokeWidth this / (if strokeUniform this then scaleX this else 1) \<and>
           height this' =
             bbox_height bbox - strokeWidth this / (if strokeUniform this then scaleY this else 1) \<and>
           (bbox_width bbox < strokeWidth this / (if strokeUniform this then scaleX this else 1)
              \<longrightarrow> width this' < 0) \<and>
           (bbox_height bbox < strokeWidth this / (if strokeUniform this then scaleY this else 1)
              \<longrightarrow> height this' < 0)"
proof -
  obtain bbox where b: "calcDimensions E this = Some bbox"
    using calcDimensions_Some by blast
  from setPositionDimensions_result[OF b, of opts]
  obtain l t this' where
    r: "setPositionDimensions E opts this = Some this'" and
    s: "this' = this\<lparr>width := bbox_width bbox
                           - strokeWidth this / (if strokeUniform this then scaleX this else 1),
                      height := bbox_height bbox
                           - strokeWidth this / (if strokeUniform this then scaleY this else 1),
                      left := l, top' := t,
                      pathOffset :=
                        removeSkew
                          (Point (bbox_left bbox + bbox_width bbox / 2)
                                 (bbox_top bbox + bbox_height bbox / 2))
                          (Point (tan (degreesToRadians (skewX this)))
                                 (tan (degreesToRadians (skewY this))))\<rparr>"
    by blast
  have "width this' =
          bbox_width bbox - strokeWidth this / (if strokeUniform this then scaleX this else 1)"
    and "height this' =
          bbox_height bbox - strokeWidth this / (if strokeUniform this then scaleY this else 1)"
    by (simp_all add: s)
  then show ?thesis
    using b r by auto
qed

theorem setPositionDimensions_width_height_witness:
  "calcDimensions exampleEnv
     (square\<lparr>points := [Point 3 4], strokeWidth := 2, strokeUniform := True,
             scaleX := 2, scaleY := 4\<rparr>) = Some (TBBox 3 4 0 0) \<and>
   (\<exists>this'. setPositionDimensions exampleEnv noOptions
              (square\<lparr>points := [Point 3 4], strokeWidth := 2, strokeUniform := True,
                      scaleX := 2, scaleY := 4\<rparr>) = Some this' \<and>
            width this' = - 1 \<and> height this' = - (1 / 2))"
proof -
  let ?s = "square\<lparr>points := [Point 3 4], strokeWidth := 2, strokeUniform := True,
                   scaleX := 2, scaleY := 4\<rparr>"
  have h: "strokeUniform ?s \<longrightarrow> scaleX ?s \<noteq> 0 \<and> scaleY ?s \<noteq> 0"
    by (simp add: square_def)
  have c: "calcDimensions exampleEnv ?s = Some (TBBox 3 4 0 0)"
    by (simp add: calcDimensions_def exampleEnv_def square_def applySkew_def Let_def tan_deg_0)
  from setPositionDimensions_width_height[OF h, of exampleEnv noOptions]
  obtain bbox this' where
    b: "calcDimensions exampleEnv ?s = Some bbox" and
    r: "setPositionDimensions exampleEnv noOptions ?s = Some this'" and
    w: "width this' = bbox_width bbox - strokeWidth ?s / (if strokeUniform ?s then scaleX ?s else 1)" and
    h': "height this' = bbox_height bbox - strokeWidth ?s / (if strokeUniform ?s then scaleY ?s else 1)"
    by blast
  have bb: "bbox = TBBox 3 4 0 0"
    using b c by simp
  have "width this' = - 1" "height this' = - (1 / 2)"
    using w h' by (simp_all add: bb square_def)
  with c r show ?thesis by blast
qed

text \<open>
  C7. After \<open>_setPositionDimensions\<close>, with \<open>offsetX = bbox.left + bbox.width / 2\<close> and
  \<open>offsetY = bbox.top + bbox.height / 2\<close>, \<open>pathOffset.x\<close> is
  \<open>offsetX - offsetY * tan(skewX\<degree>)\<close> and \<open>pathOffset.y\<close> is
  \<open>offsetY - pathOffset.x * tan(skewY\<degree>)\<close>: \<open>removeSkew\<close> applied to the centre of the
  box. The tangents are those of angles at which the tangent is defined.
\<close>

theorem setPositionDimensions_pathOffset:
  assumes "cos (degreesToRadians (skewX this)) \<noteq> 0"
      and "cos (degreesToRadians (skewY this)) \<noteq> 0"
  shows "\<exists>bbox this'.
           calcDimensions E this = Some bbox \<and>
           setPositionDimensions E opts this = Some this' \<and>
           X (pathOffset this') =
             (bbox_left bbox + bbox_width bbox / 2)
               - (bbox_top bbox + bbox_height bbox / 2) * tan (degreesToRadians (skewX this)) \<and>
           Y (pathOffset this') =
             (bbox_top bbox + bbox_height bbox / 2)
               - X (pathOffset this') * tan (degreesToRadians (skewY this)) \<and>
           pathOffset this' =
             removeSkew
               (Point (bbox_left bbox + bbox_width bbox / 2) (bbox_top bbox + bbox_height bbox / 2))
               (Point (tan (degreesToRadians (skewX this))) (tan (degreesToRadians (skewY this))))"
proof -
  obtain bbox where b: "calcDimensions E this = Some bbox"
    using calcDimensions_Some by blast
  from setPositionDimensions_result[OF b, of opts]
  obtain l t this' where
    r: "setPositionDimensions E opts this = Some this'" and
    s: "this' = this\<lparr>width := bbox_width bbox
                           - strokeWidth this / (if strokeUniform this then scaleX this else 1),
                      height := bbox_height bbox
                           - strokeWidth this / (if strokeUniform this then scaleY this else 1),
                      left := l, top' := t,
                      pathOffset :=
                        removeSkew
                          (Point (bbox_left bbox + bbox_width bbox / 2)
                                 (bbox_top bbox + bbox_height bbox / 2))
                          (Point (tan (degreesToRadians (skewX this)))
                                 (tan (degreesToRadians (skewY this))))\<rparr>"
    by blast
  have p: "pathOffset this' =
             removeSkew
               (Point (bbox_left bbox + bbox_width bbox / 2) (bbox_top bbox + bbox_height bbox / 2))
               (Point (tan (degreesToRadians (skewX this))) (tan (degreesToRadians (skewY this))))"
    by (simp add: s)
  have "X (pathOffset this') =
             (bbox_left bbox + bbox_width bbox / 2)
               - (bbox_top bbox + bbox_height bbox / 2) * tan (degreesToRadians (skewX this))"
    and "Y (pathOffset this') =
             (bbox_top bbox + bbox_height bbox / 2)
               - X (pathOffset this') * tan (degreesToRadians (skewY this))"
    by (simp_all add: p removeSkew_def Let_def)
  then show ?thesis
    using b r p by blast
qed

theorem setPositionDimensions_pathOffset_witness:
  "cos (degreesToRadians (skewX (square\<lparr>skewX := 45\<rparr>))) \<noteq> 0 \<and>
   cos (degreesToRadians (skewY (square\<lparr>skewX := 45\<rparr>))) \<noteq> 0 \<and>
   calcDimensions exampleEnv (square\<lparr>skewX := 45\<rparr>) = Some (TBBox 0 0 20 10) \<and>
   (\<exists>this'. setPositionDimensions exampleEnv noOptions (square\<lparr>skewX := 45\<rparr>) = Some this' \<and>
            pathOffset this' = Point 5 5)"
proof -
  let ?s = "square\<lparr>skewX := 45\<rparr>"
  have h: "cos (degreesToRadians (skewX ?s)) \<noteq> 0" "cos (degreesToRadians (skewY ?s)) \<noteq> 0"
    by (simp_all add: square_def cos_deg_0 cos_deg_45)
  note c = calcDimensions_skewedSquare
  from setPositionDimensions_pathOffset[OF h, of exampleEnv noOptions]
  obtain bbox this' where
    b: "calcDimensions exampleEnv ?s = Some bbox" and
    r: "setPositionDimensions exampleEnv noOptions ?s = Some this'" and
    x: "X (pathOffset this') =
       (bbox_left bbox + bbox_width bbox / 2)
         - (bbox_top bbox + bbox_height bbox / 2) * tan (degreesToRadians (skewX ?s))" and
    y: "Y (pathOffset this') =
       (bbox_top bbox + bbox_height bbox / 2)
         - X (pathOffset this') * tan (degreesToRadians (skewY ?s))"
    by blast
  have bb: "bbox = TBBox 0 0 20 10"
    using b c by simp
  have "X (pathOffset this') = 5"
    using x by (simp add: bb square_def tan_deg_45)
  moreover from this have "Y (pathOffset this') = 5"
    using y by (simp add: bb square_def tan_deg_0)
  ultimately have "pathOffset this' = Point 5 5"
    by (simp add: Point.expand)
  with h c r show ?thesis by blast
qed

text \<open>
  C8. \<open>_setPositionDimensions\<close> is idempotent on the derived geometry: a second call right
  after a first one (with any arguments) leaves \<open>width\<close>, \<open>height\<close> and \<open>pathOffset\<close>
  as the first call set them. The stroke projection is a function outside the sources; it
  reads the points and the style and transform fields, and the hypotheses say that it
  reads none of the fields that the recomputation writes.
\<close>

theorem setPositionDimensions_idempotent:
  assumes w: "\<And>pts s b v. projectStrokeOnPoints E pts (s\<lparr>width := v\<rparr>) b = projectStrokeOnPoints E pts s b"
      and h: "\<And>pts s b v. projectStrokeOnPoints E pts (s\<lparr>height := v\<rparr>) b = projectStrokeOnPoints E pts s b"
      and l: "\<And>pts s b v. projectStrokeOnPoints E pts (s\<lparr>left := v\<rparr>) b = projectStrokeOnPoints E pts s b"
      and t: "\<And>pts s b v. projectStrokeOnPoints E pts (s\<lparr>top' := v\<rparr>) b = projectStrokeOnPoints E pts s b"
      and p: "\<And>pts s b v. projectStrokeOnPoints E pts (s\<lparr>pathOffset := v\<rparr>) b = projectStrokeOnPoints E pts s b"
  shows "\<exists>this1 this2.
           setPositionDimensions E opts1 this = Some this1 \<and>
           setPositionDimensions E opts2 this1 = Some this2 \<and>
           width this2 = width this1 \<and> height this2 = height this1 \<and>
           pathOffset this2 = pathOffset this1"
proof -
  obtain bbox where b: "calcDimensions E this = Some bbox"
    using calcDimensions_Some by blast
  let ?W = "\<lambda>s. bbox_width bbox - strokeWidth s / (if strokeUniform s then scaleX s else 1)"
  let ?H = "\<lambda>s. bbox_height bbox - strokeWidth s / (if strokeUniform s then scaleY s else 1)"
  let ?P = "\<lambda>s. removeSkew (Point (bbox_left bbox + bbox_width bbox / 2)
                                 (bbox_top bbox + bbox_height bbox / 2))
                          (Point (tan (degreesToRadians (skewX s)))
                                 (tan (degreesToRadians (skewY s))))"
  from setPositionDimensions_result[OF b, of opts1]
  obtain l1 t1 where
    r1: "setPositionDimensions E opts1 this =
           Some (this\<lparr>width := ?W this, height := ?H this, left := l1, top' := t1,
                      pathOffset := ?P this\<rparr>)"
    by blast
  define this1 where
    "this1 = this\<lparr>width := ?W this, height := ?H this, left := l1, top' := t1,
                   pathOffset := ?P this\<rparr>"
  have proj: "projectStrokeOnPoints E (points this1) this1 True =
              projectStrokeOnPoints E (points this) this True"
    unfolding this1_def by (simp add: w h l t p)
  have b1: "calcDimensions E this1 = Some bbox"
    using b by (simp add: calcDimensions_def proj)
  from setPositionDimensions_result[OF b1, of opts2]
  obtain l2 t2 where
    r2: "setPositionDimensions E opts2 this1 =
           Some (this1\<lparr>width := ?W this1, height := ?H this1, left := l2, top' := t2,
                      pathOffset := ?P this1\<rparr>)"
    by blast
  have same: "?W this1 = ?W this" "?H this1 = ?H this" "?P this1 = ?P this"
    unfolding this1_def by simp_all
  have "setPositionDimensions E opts1 this = Some this1"
    using r1 by (simp only: this1_def)
  moreover have "width (this1\<lparr>width := ?W this1, height := ?H this1, left := l2, top' := t2,
                      pathOffset := ?P this1\<rparr>) = width this1"
    by (simp add: same) (simp add: this1_def)
  moreover have "height (this1\<lparr>width := ?W this1, height := ?H this1, left := l2, top' := t2,
                      pathOffset := ?P this1\<rparr>) = height this1"
    by (simp add: same) (simp add: this1_def)
  moreover have "pathOffset (this1\<lparr>width := ?W this1, height := ?H this1, left := l2, top' := t2,
                      pathOffset := ?P this1\<rparr>) = pathOffset this1"
    by (simp add: same) (simp add: this1_def)
  ultimately show ?thesis
    using r2 by blast
qed

theorem setPositionDimensions_idempotent_witness:
  "\<exists>this1 this2.
     setPositionDimensions exampleEnv noOptions (square\<lparr>skewX := 45\<rparr>) = Some this1 \<and>
     setPositionDimensions exampleEnv noOptions this1 = Some this2 \<and>
     width this2 = width this1 \<and> height this2 = height this1 \<and>
     pathOffset this2 = pathOffset this1"
  by (rule setPositionDimensions_idempotent) (simp_all add: exampleEnv_def)

text \<open>
  C9. When the sequence of projected points that \<open>_calcDimensions\<close> feeds to the
  bounding-box computation is empty, the computation has a result, the one for the single
  point \<open>(0, 0)\<close>: \<open>left = 0\<close>, \<open>top = 0\<close>, \<open>width = 0\<close>, \<open>height = 0\<close>.
\<close>

theorem calcDimensions_empty:
  assumes "map projectedPoint (projectStrokeOnPoints E (points this) this True) = []"
  shows "calcDimensions E this = makeBoundingBoxFromPoints [Point 0 0] \<and>
         calcDimensions E this = Some (TBBox 0 0 0 0)"
  using assms by (simp add: calcDimensions_def)

theorem calcDimensions_empty_witness:
  "map projectedPoint
     (projectStrokeOnPoints exampleEnv (points (square\<lparr>points := []\<rparr>))
        (square\<lparr>points := []\<rparr>) True) = [] \<and>
   calcDimensions exampleEnv (square\<lparr>points := []\<rparr>) = Some (TBBox 0 0 0 0)"
proof -
  have e: "map projectedPoint
     (projectStrokeOnPoints exampleEnv (points (square\<lparr>points := []\<rparr>))
        (square\<lparr>points := []\<rparr>) True) = []"
    by (simp add: exampleEnv_def)
  from calcDimensions_empty[OF e] e show ?thesis by simp
qed

subsection \<open>The position of a control\<close>

text \<open>
  C10. For a polyline that is on no canvas, and a control whose \<open>pointIndex\<close> is an index
  of \<open>points\<close>, \<open>positionHandler\<close> returns \<open>points[pointIndex] - pathOffset\<close> transformed
  by the polyline's own \<open>calcTransformMatrix()\<close> alone: the viewport matrix defaults to
  the identity, and nothing fails.
\<close>

theorem positionHandler_no_canvas:
  assumes "canvas polyObject = None"
      and "0 \<le> pointIndex this" and "pointIndex this < int (length (points polyObject))"
  shows "positionHandler E this dim' finalMatrix polyObject =
           Inr (point_transform
                  (point_subtract (points polyObject ! nat (pointIndex this)) (pathOffset polyObject))
                  (calcTransformMatrix E polyObject))"
  using assms
  by (simp add: positionHandler_def js_nth_def multiply_iMatrix point_subtract_def)

theorem positionHandler_no_canvas_witness:
  "canvas (square\<lparr>left := 100, top' := 50\<rparr>) = None \<and>
   positionHandler exampleEnv \<lparr>pointIndex = 2\<rparr> (Point 0 0) iMatrix (square\<lparr>left := 100, top' := 50\<rparr>)
     = Inr (Point 105 55)"
proof -
  have c: "canvas (square\<lparr>left := 100, top' := 50\<rparr>) = None"
    by (simp add: square_def)
  have i: "0 \<le> pointIndex \<lparr>pointIndex = 2\<rparr>"
    "pointIndex \<lparr>pointIndex = 2\<rparr> < int (length (points (square\<lparr>left := 100, top' := 50\<rparr>)))"
    by (simp_all add: square_def)
  from positionHandler_no_canvas[OF c i, of exampleEnv "Point 0 0" iMatrix] c
  show ?thesis
    by (simp add: square_def exampleEnv_def point_subtract_def tan_deg_0)
qed

subsection \<open>The setter\<close>

lemma setPositionDimensions_Some: "\<exists>t. setPositionDimensions E opts this = Some t"
  using calcDimensions_Some[of E this] setPositionDimensions_result[of E this _ opts] by blast

text \<open>
  C3. \<open>_set\<close> always returns, and its result is the recomputed object exactly when the
  key is \<open>skewX\<close> or \<open>skewY\<close>, or the key is \<open>scaleX\<close> or \<open>scaleY\<close> while
  \<open>strokeUniform\<close> is true and \<open>strokeLineJoin\<close> is not \<open>round\<close>; otherwise it is the
  object as the base class's setter left it, with no recomputation. In particular, with
  \<open>strokeLineJoin = round\<close> and \<open>strokeUniform = true\<close>, setting \<open>scaleX\<close> recomputes
  nothing. The two style fields are read after the base class's setter has run.
\<close>

theorem polyline_set_recompute:
  "\<exists>t. setPositionDimensions E noOptions (fst (callSuper key val this)) = Some t \<and>
       polyline_set E callSuper key val this =
         Some (if key = ''skewX'' \<or> key = ''skewY'' \<or>
                  (key = ''scaleX'' \<or> key = ''scaleY'')
                    \<and> strokeUniform (fst (callSuper key val this))
                    \<and> strokeLineJoin (fst (callSuper key val this)) \<noteq> ''round''
               then t else fst (callSuper key val this),
               snd (callSuper key val this)) \<and>
       (key = ''scaleX'' \<and> strokeUniform (fst (callSuper key val this))
          \<and> strokeLineJoin (fst (callSuper key val this)) = ''round''
        \<longrightarrow> polyline_set E callSuper key val this = Some (callSuper key val this))"
proof -
  obtain this' out where c: "callSuper key val this = (this', out)"
    by (cases "callSuper key val this")
  obtain t where t: "setPositionDimensions E noOptions this' = Some t"
    using setPositionDimensions_Some by blast
  have e: "polyline_set E callSuper key val this =
         Some (if key = ''skewX'' \<or> key = ''skewY'' \<or>
                  (key = ''scaleX'' \<or> key = ''scaleY'')
                    \<and> strokeUniform this' \<and> strokeLineJoin this' \<noteq> ''round''
               then t else this', out)"
    by (simp add: polyline_set_def c t) blast
  have p: "key = ''scaleX'' \<and> strokeUniform this' \<and> strokeLineJoin this' = ''round''
        \<longrightarrow> polyline_set E callSuper key val this = Some (this', out)"
  proof
    assume "key = ''scaleX'' \<and> strokeUniform this' \<and> strokeLineJoin this' = ''round''"
    then have n: "\<not> (key = ''skewX'' \<or> key = ''skewY'' \<or>
                  (key = ''scaleX'' \<or> key = ''scaleY'')
                    \<and> strokeUniform this' \<and> strokeLineJoin this' \<noteq> ''round'')"
      by auto
    show "polyline_set E callSuper key val this = Some (this', out)"
      unfolding e by (simp only: n if_False)
  qed
  show ?thesis
    unfolding c fst_conv snd_conv using t e p by blast
qed

lemma setPositionDimensions_miterSquare:
  "\<exists>t. setPositionDimensions exampleEnv noOptions
         (roundSquare\<lparr>strokeLineJoin := ''miter'', scaleX := 2\<rparr>) = Some t \<and> width t = 9"
proof -
  have c: "calcDimensions exampleEnv (roundSquare\<lparr>strokeLineJoin := ''miter'', scaleX := 2\<rparr>)
             = Some (TBBox 0 0 10 10)"
    by (simp add: calcDimensions_def exampleEnv_def roundSquare_def square_def applySkew_def
          Let_def tan_deg_0)
  from setPositionDimensions_result[OF c, of noOptions]
  show ?thesis
    by (auto simp: roundSquare_def square_def)
qed

theorem polyline_set_recompute_witness:
  "polyline_set exampleEnv exampleSuper ''scaleX'' 2 roundSquare
     = Some (roundSquare\<lparr>scaleX := 2\<rparr>, ()) \<and>
   width (roundSquare\<lparr>scaleX := 2\<rparr>) = 8 \<and>
   (\<exists>t. polyline_set exampleEnv exampleSuper ''scaleX'' 2
          (roundSquare\<lparr>strokeLineJoin := ''miter''\<rparr>) = Some (t, ()) \<and>
        width t = 9)"
proof -
  have s: "exampleSuper ''scaleX'' 2 roundSquare = (roundSquare\<lparr>scaleX := 2\<rparr>, ())"
    by (simp add: exampleSuper_def)
  have r: "strokeUniform (roundSquare\<lparr>scaleX := 2\<rparr>)"
    "strokeLineJoin (roundSquare\<lparr>scaleX := 2\<rparr>) = ''round''"
    by (simp_all add: roundSquare_def)
  from polyline_set_recompute[of exampleEnv exampleSuper "''scaleX''" 2 roundSquare]
  have 1: "polyline_set exampleEnv exampleSuper ''scaleX'' 2 roundSquare
     = Some (roundSquare\<lparr>scaleX := 2\<rparr>, ())"
    by (auto simp: s r)
  have 2: "width (roundSquare\<lparr>scaleX := 2\<rparr>) = 8"
    by (simp add: roundSquare_def)
  have s': "exampleSuper ''scaleX'' 2 (roundSquare\<lparr>strokeLineJoin := ''miter''\<rparr>)
              = (roundSquare\<lparr>strokeLineJoin := ''miter'', scaleX := 2\<rparr>, ())"
    by (simp add: exampleSuper_def)
  have r': "strokeUniform (roundSquare\<lparr>strokeLineJoin := ''miter'', scaleX := 2\<rparr>)"
    "strokeLineJoin (roundSquare\<lparr>strokeLineJoin := ''miter'', scaleX := 2\<rparr>) = ''miter''"
    by (simp_all add: roundSquare_def)
  obtain t where t: "setPositionDimensions exampleEnv noOptions
         (roundSquare\<lparr>strokeLineJoin := ''miter'', scaleX := 2\<rparr>) = Some t" "width t = 9"
    using setPositionDimensions_miterSquare by blast
  from polyline_set_recompute[of exampleEnv exampleSuper "''scaleX''" 2
         "roundSquare\<lparr>strokeLineJoin := ''miter''\<rparr>"]
  have "polyline_set exampleEnv exampleSuper ''scaleX'' 2
          (roundSquare\<lparr>strokeLineJoin := ''miter''\<rparr>) = Some (t, ())"
    by (auto simp: s' r' t)
  with 1 2 t show ?thesis by blast
qed

subsection \<open>The render guard\<close>

text \<open>
  C5, as amended. \<open>commonRender\<close> draws nothing and returns false exactly when \<open>points\<close>
  is empty or the y-coordinate of the last point is \<open>NaN\<close>; for every other input, a
  last y-coordinate of plus or minus infinity included, it issues \<open>beginPath\<close>, one
  \<open>moveTo\<close> and one \<open>lineTo\<close> for each point, and returns true. The polyline is
  unchanged in both branches.
\<close>

theorem commonRender_guard:
  "commonRender this ctx =
     (if points this = [] \<or> Y (last (points this)) = NaN then (False, this, ctx)
      else (True, this,
            ctx @ BeginPath
              # MoveTo (js_sub (X (hd (points this))) (X (pathOffset this)))
                       (js_sub (Y (hd (points this))) (Y (pathOffset this)))
              # map (\<lambda>p. LineTo (js_sub (X p) (X (pathOffset this)))
                                  (js_sub (Y p) (Y (pathOffset this))))
                    (points this)))"
  by (cases "points this")
     (auto simp: commonRender_def Let_def lineTo_loop_map isNaN_iff last_conv_nth hd_conv_nth)

text \<open>
  C5 as stated fails: the last y-coordinate of \<open>infinitePolyline\<close> is infinite, and
  \<open>commonRender\<close> draws and returns true.
\<close>

theorem commonRender_infinite_counterexample:
  "Y (last (points infinitePolyline)) = PosInf \<and>
   commonRender infinitePolyline [] =
     (True, infinitePolyline, [BeginPath, MoveTo (Num 0) PosInf, LineTo (Num 0) PosInf])"
  by (simp add: commonRender_def infinitePolyline_def Let_def)

subsection \<open>The anchor\<close>

lemma calcDimensions_draggedSquare:
  "calcDimensions exampleEnv
     (skewedSquare\<lparr>points := [Point 0 0, Point 10 0, Point 15 10, Point 0 10]\<rparr>)
   = Some (TBBox 0 0 25 10)"
  by (simp add: calcDimensions_def exampleEnv_def skewedSquare_def square_def applySkew_def
        Let_def tan_deg_0 tan_deg_45)

lemma exampleDrag_skewedSquare:
  "exampleDrag exampleEnv () () 15 10 skewedSquare = Inr (True, draggedSquare)"
proof -
  let ?s = "skewedSquare\<lparr>points := [Point 0 0, Point 10 0, Point 15 10, Point 0 10]\<rparr>"
  have c: "controls skewedSquare (corner skewedSquare) = Some \<lparr>pointIndex = 2\<rparr>"
    by (simp add: skewedSquare_def square_def)
  have u: "skewedSquare\<lparr>points := (points skewedSquare)[2 := Point 15 10]\<rparr> = ?s"
    by (simp add: skewedSquare_def square_def)
  have r: "setPositionDimensions exampleEnv noOptions ?s = Some draggedSquare"
    using calcDimensions_draggedSquare
    apply (simp only: setPositionDimensions_def strokeCorrection_eq option.case Let_def)
    apply (simp add: draggedSquare_def skewedSquare_def square_def noOptions_def exampleEnv_def
        tan_deg_0 tan_deg_45)
    done
  show ?thesis
    by (simp add: exampleDrag_def c u r)
qed

text \<open>
  C2, as amended. When the control and the anchor vertex exist and the wrapped handler
  returns, \<open>anchorWrapper\<close> repositions the polyline the handler left, by
  \<open>setPositionByOrigin\<close>, at the world position the anchor had before, with the origin
  fraction \<open>applySkew(points[anchorIndex] - pathOffset, shear)\<close>, divided componentwise by
  the new \<open>(width, height)\<close>, multiplied componentwise by the flip adjustment, plus 0.5
  in each component, where \<open>shear = (tan(skewX\<degree>), tan(skewY\<degree>))\<close>: the shear is applied,
  not removed. The new width and height are not zero and the tangents are defined.
\<close>

theorem anchorWrapper_origin_fraction:
  assumes "controls poly (corner poly) = Some currentControl"
      and "anchorIndex =
             (if pointIndex currentControl > 0 then pointIndex currentControl
              else int (length (points poly))) - 1"
      and "js_nth (points poly) anchorIndex = Some a"
      and "fn eventData transform x y poly = Inr (actionPerformed, poly')"
      and "js_nth (points poly') anchorIndex = Some a'"
      and "width poly' \<noteq> 0" and "height poly' \<noteq> 0"
      and "cos (degreesToRadians (skewX poly')) \<noteq> 0"
      and "cos (degreesToRadians (skewY poly')) \<noteq> 0"
  shows "anchorWrapper E fn eventData transform x y poly =
           Inr (actionPerformed,
                setPositionByOrigin E
                  (point_transform (point_subtract a (pathOffset poly)) (calcTransformMatrix E poly))
                  (X (applySkew (point_subtract a' (pathOffset poly'))
                        (Point (tan (degreesToRadians (skewX poly')))
                               (tan (degreesToRadians (skewY poly')))))
                     / width poly' * (if flipX poly' then - 1 else 1) + 0.5)
                  (Y (applySkew (point_subtract a' (pathOffset poly'))
                        (Point (tan (degreesToRadians (skewX poly')))
                               (tan (degreesToRadians (skewY poly')))))
                     / height poly' * (if flipY poly' then - 1 else 1) + 0.5)
                  poly')"
  using assms
  by (simp add: anchorWrapper_def Let_def getSize_def point_subtract_def point_divide_def
        point_multiply_def)

theorem anchorWrapper_origin_fraction_witness:
  "exampleDrag exampleEnv () () 15 10 skewedSquare = Inr (True, draggedSquare) \<and>
   width draggedSquare \<noteq> 0 \<and> height draggedSquare \<noteq> 0 \<and>
   anchorWrapper exampleEnv (exampleDrag exampleEnv) () () 15 10 skewedSquare =
     Inr (True, draggedSquare\<lparr>left := 2 / 5, top' := 0\<rparr>)"
proof -
  have c: "controls skewedSquare (corner skewedSquare) = Some \<lparr>pointIndex = 2\<rparr>"
    by (simp add: skewedSquare_def square_def)
  have i: "(1::int) = (if pointIndex \<lparr>pointIndex = 2\<rparr> > 0 then pointIndex \<lparr>pointIndex = 2\<rparr>
              else int (length (points skewedSquare))) - 1"
    by simp
  have a: "js_nth (points skewedSquare) 1 = Some (Point 10 0)"
    by (simp add: js_nth_def skewedSquare_def square_def)
  have a': "js_nth (points draggedSquare) 1 = Some (Point 10 0)"
    by (simp add: js_nth_def draggedSquare_def skewedSquare_def square_def)
  have w: "width draggedSquare \<noteq> 0" "height draggedSquare \<noteq> 0"
    by (simp_all add: draggedSquare_def skewedSquare_def square_def)
  have k: "cos (degreesToRadians (skewX draggedSquare)) \<noteq> 0"
    "cos (degreesToRadians (skewY draggedSquare)) \<noteq> 0"
    by (simp_all add: draggedSquare_def skewedSquare_def square_def cos_deg_0 cos_deg_45)
  from anchorWrapper_origin_fraction[where fn = "exampleDrag exampleEnv" and eventData = "()"
         and transform = "()" and x = 15 and y = 10 and poly = skewedSquare and E = exampleEnv,
         OF c i a exampleDrag_skewedSquare a' w k]
  have "anchorWrapper exampleEnv (exampleDrag exampleEnv) () () 15 10 skewedSquare =
     Inr (True, draggedSquare\<lparr>left := 2 / 5, top' := 0\<rparr>)"
    by (simp add: exampleEnv_def draggedSquare_def skewedSquare_def square_def applySkew_def
          point_subtract_def Let_def tan_deg_0 tan_deg_45)
  with exampleDrag_skewedSquare w show ?thesis by simp
qed

text \<open>
  C2 as stated fails: for the skewed square whose vertex 2 is dragged to \<open>(15, 10)\<close>,
  \<open>anchorWrapper\<close> passes the origin fraction \<open>(2/5, 0)\<close>, and the fraction with
  \<open>removeSkew\<close> is \<open>(4/5, 0)\<close>. The skewed anchor \<open>(10, 0)\<close> lies at 2/5 of the skewed
  bounding box, which spans 0 to 25.
\<close>

theorem anchorWrapper_fraction_counterexample:
  "anchorWrapper exampleEnv (exampleDrag exampleEnv) () () 15 10 skewedSquare =
     Inr (True, draggedSquare\<lparr>left := 2 / 5, top' := 0\<rparr>) \<and>
   spec_originFraction draggedSquare (Point 10 0) = Point (4 / 5) 0 \<and>
   anchorWrapper exampleEnv (exampleDrag exampleEnv) () () 15 10 skewedSquare \<noteq>
     Inr (True,
          setPositionByOrigin exampleEnv (Point 0 (- 5))
            (X (spec_originFraction draggedSquare (Point 10 0)))
            (Y (spec_originFraction draggedSquare (Point 10 0))) draggedSquare)"
proof -
  have c: "controls skewedSquare (corner skewedSquare) = Some \<lparr>pointIndex = 2\<rparr>"
    by (simp add: skewedSquare_def square_def)
  have a: "js_nth (points skewedSquare) 1 = Some (Point 10 0)"
    by (simp add: js_nth_def skewedSquare_def square_def)
  have a': "js_nth (points draggedSquare) 1 = Some (Point 10 0)"
    by (simp add: js_nth_def draggedSquare_def skewedSquare_def square_def)
  have 1: "anchorWrapper exampleEnv (exampleDrag exampleEnv) () () 15 10 skewedSquare =
     Inr (True, draggedSquare\<lparr>left := 2 / 5, top' := 0\<rparr>)"
    apply (simp only: anchorWrapper_def c option.case Let_def)
    apply (simp add: a exampleDrag_skewedSquare a')
    apply (simp add: exampleEnv_def draggedSquare_def skewedSquare_def square_def applySkew_def
          point_subtract_def point_divide_def point_multiply_def getSize_def Let_def
          tan_deg_0 tan_deg_45)
    done
  have 2: "spec_originFraction draggedSquare (Point 10 0) = Point (4 / 5) 0"
    by (simp add: spec_originFraction_def draggedSquare_def skewedSquare_def square_def
          removeSkew_def point_subtract_def point_divide_def point_multiply_def
          point_scalarAdd_def Let_def tan_deg_0 tan_deg_45)
  have 3: "left (draggedSquare\<lparr>left := 2 / 5, top' := 0\<rparr>) \<noteq>
           left (setPositionByOrigin exampleEnv (Point 0 (- 5)) (4 / 5) 0 draggedSquare)"
    by (simp add: exampleEnv_def)
  have "anchorWrapper exampleEnv (exampleDrag exampleEnv) () () 15 10 skewedSquare \<noteq>
     Inr (True,
          setPositionByOrigin exampleEnv (Point 0 (- 5))
            (X (spec_originFraction draggedSquare (Point 10 0)))
            (Y (spec_originFraction draggedSquare (Point 10 0))) draggedSquare)"
  proof
    assume "anchorWrapper exampleEnv (exampleDrag exampleEnv) () () 15 10 skewedSquare =
     Inr (True,
          setPositionByOrigin exampleEnv (Point 0 (- 5))
            (X (spec_originFraction draggedSquare (Point 10 0)))
            (Y (spec_originFraction draggedSquare (Point 10 0))) draggedSquare)"
    then have "draggedSquare\<lparr>left := 2 / 5, top' := 0\<rparr> =
               setPositionByOrigin exampleEnv (Point 0 (- 5)) (4 / 5) 0 draggedSquare"
      by (simp add: 1 2)
    then have "left (draggedSquare\<lparr>left := 2 / 5, top' := 0\<rparr>) =
               left (setPositionByOrigin exampleEnv (Point 0 (- 5)) (4 / 5) 0 draggedSquare)"
      by (rule arg_cong)
    with 3 show False by contradiction
  qed
  with 1 2 show ?thesis by blast
qed

end
